theory Spec2Isabelle
  imports Complex_Main "HOL-Library.Sublist" "HOL-Library.Multiset"
begin

section \<open>Values, records and the language's built-in functions\<close>

text \<open>
  The development follows the latest revision of \<^verbatim>\<open>charts.js\<close> (the one with
  \<^verbatim>\<open>toNumberMaybe\<close>, \<^verbatim>\<open>ensureRequired\<close> and six chart builders).

  A cell of a parsed CSV row is a JavaScript primitive. Numbers are modelled as
  rationals: the comparator only looks at the sign of a difference of two numbers, and
  that sign is the same for exact and for IEEE double subtraction of finite values.
  \<^verbatim>\<open>NaN\<close> and the infinities are outside the model.  A string is a list of code
  units below 256. The only values that are not primitives are the ones every object
  inherits from \<^verbatim>\<open>Object.prototype\<close>: its built-in functions (\<open>Native\<close>, by
  the function's name) and the prototype object itself.
\<close>

datatype jsval = Undefined | Null | Bool bool | Num rat | Str string | Native string | ObjectProto

text \<open>
  A row is a plain object; the association list holds its own properties, with the
  header's column names as keys. \<^verbatim>\<open>r[k]\<close> reads an own property first, then the
  properties inherited from \<^verbatim>\<open>Object.prototype\<close>, and is \<^verbatim>\<open>undefined\<close> for
  any other key.
\<close>

type_synonym row = "(string \<times> jsval) list"

definition objectPrototype :: "(string \<times> jsval) list" where
  "objectPrototype =
     [(''constructor'', Native ''Object''),
      (''__defineGetter__'', Native ''__defineGetter__''),
      (''__defineSetter__'', Native ''__defineSetter__''),
      (''hasOwnProperty'', Native ''hasOwnProperty''),
      (''__lookupGetter__'', Native ''__lookupGetter__''),
      (''__lookupSetter__'', Native ''__lookupSetter__''),
      (''isPrototypeOf'', Native ''isPrototypeOf''),
      (''propertyIsEnumerable'', Native ''propertyIsEnumerable''),
      (''toString'', Native ''toString''),
      (''valueOf'', Native ''valueOf''),
      (''__proto__'', ObjectProto),
      (''toLocaleString'', Native ''toLocaleString'')]"

definition getProp :: "row \<Rightarrow> string \<Rightarrow> jsval" where
  "getProp r k =
     (case map_of r k of
        Some v \<Rightarrow> v
      | None \<Rightarrow> (case map_of objectPrototype k of Some v \<Rightarrow> v | None \<Rightarrow> Undefined))"

text \<open>
  Functions of the platform that the script calls and does not define are parameters:
  \<^verbatim>\<open>Number(s)\<close> on a string (\<open>None\<close> is \<^verbatim>\<open>NaN\<close>), \<^verbatim>\<open>String(n)\<close> on a
  number, \<^verbatim>\<open>s.localeCompare(t)\<close>, \<^verbatim>\<open>Papa.parse(text, {header: true,
  dynamicTyping: true, skipEmptyLines: true}).data\<close>, and
  \<^verbatim>\<open>Array.prototype.sort\<close> on an array of rows with a comparator, of which only
  the sign of the result is used.
\<close>

record builtins =
  stringToNumber :: "string \<Rightarrow> rat option"
  numberToString :: "rat \<Rightarrow> string"
  localeCompare :: "string \<Rightarrow> string \<Rightarrow> int"
  papaParse :: "string \<Rightarrow> row list"
  arraySort :: "(row \<Rightarrow> row \<Rightarrow> rat) \<Rightarrow> row list \<Rightarrow> row list"

text \<open>
  \<^verbatim>\<open>String.prototype.trim\<close> removes white space and line terminators from both
  ends; below 256 these are TAB, LF, VT, FF, CR, SP and NBSP.
\<close>

definition isWhiteSpace :: "char \<Rightarrow> bool" where
  "isWhiteSpace c =
     (c \<in> set [CHR 0x09, CHR 0x0A, CHR 0x0B, CHR 0x0C, CHR 0x0D, CHR 0x20, CHR 0xA0])"

definition trim :: "string \<Rightarrow> string" where
  "trim s = rev (dropWhile isWhiteSpace (rev (dropWhile isWhiteSpace s)))"

text \<open>\<^verbatim>\<open>String(v)\<close> for a primitive.\<close>

fun toString :: "builtins \<Rightarrow> jsval \<Rightarrow> string" where
  "toString B Undefined = ''undefined''"
| "toString B Null = ''null''"
| "toString B (Bool b) = (if b then ''true'' else ''false'')"
| "toString B (Num n) = numberToString B n"
| "toString B (Str s) = s"
| "toString B (Native f) = ''function '' @ f @ ''() { [native code] }''"
| "toString B ObjectProto = ''[object Object]''"

section \<open>Row normalizer: \<^verbatim>\<open>toNumberMaybe\<close>\<close>

text \<open>
  \<^verbatim>\<open>
  function toNumberMaybe(v) {
    if (typeof v === "number") return v;
    if (typeof v === "string" && v.trim() !== "" && !Number.isNaN(Number(v))) return Number(v);
    return null;
  }
  \<close>
  The result \<open>None\<close> is \<^verbatim>\<open>null\<close>.
\<close>

fun toNumberMaybe :: "builtins \<Rightarrow> jsval \<Rightarrow> rat option" where
  "toNumberMaybe B (Num n) = Some n"
| "toNumberMaybe B (Str s) =
     (if trim s \<noteq> [] \<and> stringToNumber B s \<noteq> None then stringToNumber B s else None)"
| "toNumberMaybe B v = None"

section \<open>The canvas and its configuration attributes\<close>

text \<open>
  \<^verbatim>\<open>canvas.dataset\<close> maps attribute names to strings; an attribute that is not set
  reads as \<^verbatim>\<open>undefined\<close> (\<open>None\<close>). \<open>has2dContext\<close> says whether
  \<^verbatim>\<open>canvas.getContext("2d")\<close> yields a context.
\<close>

record canvas =
  dataset :: "string \<Rightarrow> string option"
  has2dContext :: bool

text \<open>Truthiness of an attribute, and \<^verbatim>\<open>attr || dflt\<close>.\<close>

definition truthy :: "string option \<Rightarrow> bool" where
  "truthy a = (case a of None \<Rightarrow> False | Some s \<Rightarrow> s \<noteq> [])"

definition orElse :: "string option \<Rightarrow> string \<Rightarrow> string" where
  "orElse a dflt = (case a of None \<Rightarrow> dflt | Some s \<Rightarrow> if s = [] then dflt else s)"

text \<open>\<^verbatim>\<open>toLowerCase\<close> on code units below 256: A-Z and the accented capitals.\<close>

definition lowerChar :: "char \<Rightarrow> char" where
  "lowerChar c =
     (let n = (of_char c :: nat)
      in if (65 \<le> n \<and> n \<le> 90) \<or> (192 \<le> n \<and> n \<le> 222 \<and> n \<noteq> 215)
         then char_of (n + 32) else c)"

definition toLowerCase :: "string \<Rightarrow> string" where
  "toLowerCase s = map lowerChar s"

text \<open>
  \<^verbatim>\<open>parseInt(s, 10)\<close>: leading white space is skipped, one sign is read, then the
  longest run of decimal digits; no digit gives \<^verbatim>\<open>NaN\<close> (\<open>None\<close>).
\<close>

definition isDigit :: "char \<Rightarrow> bool" where
  "isDigit c = (48 \<le> (of_char c :: nat) \<and> (of_char c :: nat) \<le> 57)"

definition digitsValue :: "string \<Rightarrow> nat" where
  "digitsValue ds = foldl (\<lambda>acc c. 10 * acc + (of_char c - 48)) 0 ds"

definition parseInt10 :: "string \<Rightarrow> int option" where
  "parseInt10 s =
     (let t = dropWhile isWhiteSpace s;
          neg = (t \<noteq> [] \<and> hd t = CHR ''-'');
          u = (if t \<noteq> [] \<and> (hd t = CHR ''-'' \<or> hd t = CHR ''+'') then tl t else t);
          ds = takeWhile isDigit u
      in if ds = [] then None
         else Some (if neg then - int (digitsValue ds) else int (digitsValue ds)))"

section \<open>Sort/limit transform: \<^verbatim>\<open>applySortLimit\<close>\<close>

text \<open>
  The comparator of \<^verbatim>\<open>applySortLimit\<close>:
  \<^verbatim>\<open>
  (a, b) => {
    const avRaw = a?.[sortCol];
    const bvRaw = b?.[sortCol];
    if (avRaw === bvRaw) return 0;
    if (avRaw === undefined || avRaw === null || avRaw === "") return 1;
    if (bvRaw === undefined || bvRaw === null || bvRaw === "") return -1;
    const avNum = toNumberMaybe(avRaw);
    const bvNum = toNumberMaybe(bvRaw);
    if (avNum !== null && bvNum !== null) {
      return sortDir === "asc" ? avNum - bvNum : bvNum - avNum;
    }
    const avStr = String(avRaw);
    const bvStr = String(bvRaw);
    return sortDir === "asc" ? avStr.localeCompare(bvStr) : bvStr.localeCompare(avStr);
  }
  \<close>
\<close>

definition isBlank :: "jsval \<Rightarrow> bool" where
  "isBlank v = (v = Undefined \<or> v = Null \<or> v = Str [])"

definition compareRows :: "builtins \<Rightarrow> string \<Rightarrow> string \<Rightarrow> row \<Rightarrow> row \<Rightarrow> rat" where
  "compareRows B sortCol sortDir a b =
     (let avRaw = getProp a sortCol; bvRaw = getProp b sortCol
      in if avRaw = bvRaw then 0
         else if isBlank avRaw then 1
         else if isBlank bvRaw then - 1
         else (case (toNumberMaybe B avRaw, toNumberMaybe B bvRaw) of
                 (Some avNum, Some bvNum) \<Rightarrow>
                   (if sortDir = ''asc'' then avNum - bvNum else bvNum - avNum)
               | _ \<Rightarrow>
                   (if sortDir = ''asc''
                    then of_int (localeCompare B (toString B avRaw) (toString B bvRaw))
                    else of_int (localeCompare B (toString B bvRaw) (toString B avRaw)))))"

text \<open>
  \<^verbatim>\<open>
  function applySortLimit(rows, canvas) {
    const sortCol = canvas.dataset.sortCol;
    const sortDir = (canvas.dataset.sortDir || "desc").toLowerCase();
    const limit = parseInt(canvas.dataset.limit || "0", 10);
    let out = rows.slice();
    if (sortCol) { out.sort(...); }
    if (limit && limit > 0) out = out.slice(0, limit);
    return out;
  }
  \<close>
\<close>

definition sortDirOf :: "canvas \<Rightarrow> string" where
  "sortDirOf c = toLowerCase (orElse (dataset c ''sortDir'') ''desc'')"

definition limitOf :: "canvas \<Rightarrow> int option" where
  "limitOf c = parseInt10 (orElse (dataset c ''limit'') ''0'')"

definition sortStep :: "builtins \<Rightarrow> canvas \<Rightarrow> row list \<Rightarrow> row list" where
  "sortStep B c out =
     (case dataset c ''sortCol'' of
        None \<Rightarrow> out
      | Some sortCol \<Rightarrow>
          if sortCol = [] then out else arraySort B (compareRows B sortCol (sortDirOf c)) out)"

definition limitStep :: "canvas \<Rightarrow> row list \<Rightarrow> row list" where
  "limitStep c out =
     (case limitOf c of
        None \<Rightarrow> out
      | Some limit \<Rightarrow> if limit \<noteq> 0 \<and> limit > 0 then take (nat limit) out else out)"

definition applySortLimit :: "builtins \<Rightarrow> row list \<Rightarrow> canvas \<Rightarrow> row list" where
  "applySortLimit B rows c = limitStep c (sortStep B c rows)"

subsection \<open>What the language promises about \<^verbatim>\<open>sort\<close>\<close>




subsection \<open>What it means for the output to be ordered\<close>

text \<open>
  A value is present when the comparator does not treat it as blank. Two present values
  are ordered the way the comparator orders them: as numbers when both coerce to a
  number, by \<^verbatim>\<open>localeCompare\<close> on their text otherwise.
\<close>

definition present :: "jsval \<Rightarrow> bool" where
  "present v = (\<not> isBlank v)"

definition valueLe :: "builtins \<Rightarrow> jsval \<Rightarrow> jsval \<Rightarrow> bool" where
  "valueLe B v w =
     (case (toNumberMaybe B v, toNumberMaybe B w) of
        (Some x, Some y) \<Rightarrow> x \<le> y
      | _ \<Rightarrow> localeCompare B (toString B v) (toString B w) \<le> 0)"




text \<open>
  A numeric column: every present value coerces to a number. A text column: no present
  value does. \<open>oneBlankKind\<close>: the blank cells of the column are all the same value
  (the comparator puts \<^verbatim>\<open>null\<close> after \<^verbatim>\<open>undefined\<close> and
  \<^verbatim>\<open>undefined\<close> after \<^verbatim>\<open>null\<close>). \<open>localeOrder\<close> states that
  \<^verbatim>\<open>localeCompare\<close> is a consistent comparator: swapping the arguments swaps
  the sign, and "not after" is transitive. A column is comparable when the comparator
  is consistent on it for these reasons.
\<close>

definition numericColumn :: "builtins \<Rightarrow> string \<Rightarrow> row list \<Rightarrow> bool" where
  "numericColumn B col rows =
     (\<forall>r \<in> set rows. present (getProp r col) \<longrightarrow> toNumberMaybe B (getProp r col) \<noteq> None)"

definition textColumn :: "builtins \<Rightarrow> string \<Rightarrow> row list \<Rightarrow> bool" where
  "textColumn B col rows =
     (\<forall>r \<in> set rows. present (getProp r col) \<longrightarrow> toNumberMaybe B (getProp r col) = None)"


definition localeOrder :: "builtins \<Rightarrow> bool" where
  "localeOrder B =
     ((\<forall>s t. (localeCompare B s t < 0) = (0 < localeCompare B t s)) \<and>
      (\<forall>s t u. localeCompare B s t \<le> 0 \<and> localeCompare B t u \<le> 0
                 \<longrightarrow> localeCompare B s u \<le> 0))"



section \<open>Loader: \<^verbatim>\<open>loadCsv\<close>\<close>

text \<open>
  A thrown \<^verbatim>\<open>new Error(msg)\<close> is \<open>Error msg\<close>; a \<^verbatim>\<open>fetch\<close> whose promise
  rejects is \<open>FetchRejected\<close>. The network is a function from URLs to what
  \<^verbatim>\<open>fetch\<close> settles with; of a response the script reads \<^verbatim>\<open>ok\<close>,
  \<^verbatim>\<open>status\<close> and the text.
\<close>

datatype error = Error string | FetchRejected

record response =
  ok :: bool
  status :: nat
  body :: string

datatype fetched = Rejected | Resolved response

type_synonym network = "string \<Rightarrow> fetched"

text \<open>
  \<^verbatim>\<open>
  async function loadCsv(url) {
    if (!url) throw new Error("Missing data-csv attribute on canvas.");
    const res = await fetch(url, { cache: "no-store" });
    if (!res.ok) throw new Error(`CSV not found: ${url} (${res.status})`);
    const text = await res.text();
    const parsed = Papa.parse(text, {header: true, dynamicTyping: true, skipEmptyLines: true});
    const rows = Array.isArray(parsed.data) ? parsed.data : [];
    return rows.filter(r => r && typeof r === "object" && Object.keys(r).length > 0);
  }
  \<close>
  The first component of the result lists the URLs that were fetched.
\<close>

definition loadCsv :: "builtins \<Rightarrow> network \<Rightarrow> string option \<Rightarrow> string list \<times> (error + row list)" where
  "loadCsv B net url =
     (case url of
        None \<Rightarrow> ([], Inl (Error ''Missing data-csv attribute on canvas.''))
      | Some u \<Rightarrow>
          if u = [] then ([], Inl (Error ''Missing data-csv attribute on canvas.''))
          else (case net u of
                  Rejected \<Rightarrow> ([u], Inl FetchRejected)
                | Resolved res \<Rightarrow>
                    if \<not> ok res
                    then ([u], Inl (Error (''CSV not found: '' @ u @ '' ('' @
                                            numberToString B (of_nat (status res)) @ '')'')))
                    else ([u], Inr (filter (\<lambda>r. r \<noteq> []) (papaParse B (body res))))))"

text \<open>
  An error message carries a URL and a status code when both occur in its text.
\<close>

definition carries :: "builtins \<Rightarrow> string \<Rightarrow> string \<Rightarrow> nat \<Rightarrow> bool" where
  "carries B msg url st = (sublist url msg \<and> sublist (numberToString B (of_nat st)) msg)"

section \<open>Label deriver: \<^verbatim>\<open>labelTeamSeason\<close>\<close>

text \<open>
  \<^verbatim>\<open>
  function labelTeamSeason(row, labelCol, seasonCol) {
    const team = row?.[labelCol];
    const season = seasonCol ? row?.[seasonCol] : null;
    const teamText = team !== undefined && team !== null ? String(team) : "";
    const seasonText =
      season !== null && season !== undefined && season !== "" ? String(season) : "";
    return seasonText ? `${teamText} (${seasonText})` : `${teamText}`;
  }
  \<close>
  \<open>seasonCol\<close> is \<open>None\<close> for \<^verbatim>\<open>null\<close>.
\<close>

definition labelTeamSeason :: "builtins \<Rightarrow> row \<Rightarrow> string \<Rightarrow> string option \<Rightarrow> string" where
  "labelTeamSeason B r labelCol seasonCol =
     (let team = getProp r labelCol;
          season = (case seasonCol of
                      None \<Rightarrow> Null
                    | Some sc \<Rightarrow> if sc = [] then Null else getProp r sc);
          teamText = (if team \<noteq> Undefined \<and> team \<noteq> Null then toString B team else []);
          seasonText = (if season \<noteq> Null \<and> season \<noteq> Undefined \<and> season \<noteq> Str []
                        then toString B season else [])
      in if seasonText \<noteq> [] then teamText @ '' ('' @ seasonText @ '')'' else teamText)"

section \<open>Required attributes: \<^verbatim>\<open>ensureRequired\<close>\<close>

text \<open>
  \<^verbatim>\<open>
  function ensureRequired(canvas, keys) {
    const missing = keys.filter(k => !canvas.dataset[k] || canvas.dataset[k].trim?.() === "");
    if (missing.length) {
      throw new Error(
        `Canvas is missing required data-* attributes: ${missing
          .map(k => `data-${k.replace(/[A-Z]/g, m => "-" + m.toLowerCase())}`)
          .join(", ")}`
      );
    }
  }
  \<close>
\<close>

definition attrMissing :: "canvas \<Rightarrow> string \<Rightarrow> bool" where
  "attrMissing c k = (case dataset c k of None \<Rightarrow> True | Some v \<Rightarrow> v = [] \<or> trim v = [])"

definition isUpperAZ :: "char \<Rightarrow> bool" where
  "isUpperAZ ch = (65 \<le> (of_char ch :: nat) \<and> (of_char ch :: nat) \<le> 90)"

definition kebab :: "string \<Rightarrow> string" where
  "kebab k = concat (map (\<lambda>ch. if isUpperAZ ch then [CHR ''-'', lowerChar ch] else [ch]) k)"

fun joinWith :: "string \<Rightarrow> string list \<Rightarrow> string" where
  "joinWith sep [] = []"
| "joinWith sep [x] = x"
| "joinWith sep (x # y # ys) = x @ sep @ joinWith sep (y # ys)"

definition missingMessage :: "string list \<Rightarrow> string" where
  "missingMessage missing =
     ''Canvas is missing required data-* attributes: '' @
     joinWith '', '' (map (\<lambda>k. ''data-'' @ kebab k) missing)"

definition ensureRequired :: "canvas \<Rightarrow> string list \<Rightarrow> error + unit" where
  "ensureRequired c keys =
     (let missing = filter (attrMissing c) keys
      in if missing \<noteq> [] then Inl (Error (missingMessage missing)) else Inr ())"

section \<open>Chart builders\<close>

text \<open>
  A builder hands \<^verbatim>\<open>new Chart(ctx, {type, data: {labels, datasets}, options})\<close> to
  the charting library. Of that object the model keeps the type, the labels, each
  dataset's label and data, and the title; colours, axes, legends and tooltips are
  constants or attribute texts that no row feeds into. A builder that finds no 2d
  context returns without a chart (\<open>None\<close>). The first component of a builder's result
  lists the URLs fetched.
\<close>

datatype datum = Value jsval | Point jsval jsval

record series =
  label :: jsval
  data :: "datum list"

record chart =
  chartType :: string
  labels :: "jsval list option"
  datasets :: "series list"
  title :: string

type_synonym outcome = "string list \<times> (error + chart option)"

text \<open>A property key read from an attribute: \<^verbatim>\<open>r[undefined]\<close> reads the key "undefined".\<close>

definition propKey :: "string option \<Rightarrow> string" where
  "propKey a = (case a of None \<Rightarrow> ''undefined'' | Some s \<Rightarrow> s)"

text \<open>\<^verbatim>\<open>seasonCol || null\<close> after \<^verbatim>\<open>canvas.dataset.seasonCol || ""\<close>.\<close>

definition seasonColOf :: "canvas \<Rightarrow> string option" where
  "seasonColOf c = (let s = orElse (dataset c ''seasonCol'') [] in if s = [] then None else Some s)"

text \<open>
  Every builder starts with \<^verbatim>\<open>ensureRequired\<close>, then awaits \<^verbatim>\<open>loadCsv\<close>; an
  error of either ends it. \<open>afterLoad\<close> is this common frame around the rest of a builder.
\<close>

definition afterLoad ::
  "builtins \<Rightarrow> network \<Rightarrow> canvas \<Rightarrow> string list \<Rightarrow> (row list \<Rightarrow> chart) \<Rightarrow> outcome" where
  "afterLoad B net c keys mk =
     (case ensureRequired c keys of
        Inl e \<Rightarrow> ([], Inl e)
      | Inr u \<Rightarrow>
          (case loadCsv B net (dataset c ''csv'') of
             (reqs, Inl e) \<Rightarrow> (reqs, Inl e)
           | (reqs, Inr rowsRaw) \<Rightarrow>
               (reqs, Inr (if has2dContext c then Some (mk rowsRaw) else None))))"

definition buildWinsLosses :: "builtins \<Rightarrow> network \<Rightarrow> canvas \<Rightarrow> outcome" where
  "buildWinsLosses B net c =
     afterLoad B net c [''csv'', ''labelCol'', ''winsCol'', ''lossesCol'']
       (\<lambda>rowsRaw.
          let rows = applySortLimit B rowsRaw c;
              labelCol = propKey (dataset c ''labelCol'');
              winsCol = propKey (dataset c ''winsCol'');
              lossesCol = propKey (dataset c ''lossesCol'');
              winsLabel = orElse (dataset c ''winsLabel'') ''Wins'';
              lossesLabel = orElse (dataset c ''lossesLabel'') ''Losses''
          in \<lparr> chartType = ''bar'',
               labels = Some (map (\<lambda>r. Str (labelTeamSeason B r labelCol (seasonColOf c))) rows),
               datasets = [\<lparr> label = Str winsLabel, data = map (\<lambda>r. Value (getProp r winsCol)) rows \<rparr>,
                           \<lparr> label = Str lossesLabel, data = map (\<lambda>r. Value (getProp r lossesCol)) rows \<rparr>],
               title = orElse (dataset c ''title'') [] \<rparr>)"

definition buildBar :: "builtins \<Rightarrow> network \<Rightarrow> canvas \<Rightarrow> outcome" where
  "buildBar B net c =
     afterLoad B net c [''csv'', ''labelCol'', ''yCol'']
       (\<lambda>rowsRaw.
          let rows = applySortLimit B rowsRaw c;
              labelCol = propKey (dataset c ''labelCol'');
              yCol = propKey (dataset c ''yCol'');
              yLabel = orElse (dataset c ''yLabel'') yCol
          in \<lparr> chartType = ''bar'',
               labels = Some (map (\<lambda>r. Str (labelTeamSeason B r labelCol (seasonColOf c))) rows),
               datasets = [\<lparr> label = Str yLabel, data = map (\<lambda>r. Value (getProp r yCol)) rows \<rparr>],
               title = orElse (dataset c ''title'') [] \<rparr>)"

definition buildSimpleBar :: "builtins \<Rightarrow> network \<Rightarrow> canvas \<Rightarrow> outcome" where
  "buildSimpleBar B net c =
     afterLoad B net c [''csv'', ''labelCol'', ''yCol'']
       (\<lambda>rowsRaw.
          let rows = applySortLimit B rowsRaw c;
              labelCol = propKey (dataset c ''labelCol'');
              yCol = propKey (dataset c ''yCol'');
              yLabel = orElse (dataset c ''yLabel'') yCol
          in \<lparr> chartType = ''bar'',
               labels = Some (map (\<lambda>r. getProp r labelCol) rows),
               datasets = [\<lparr> label = Str yLabel, data = map (\<lambda>r. Value (getProp r yCol)) rows \<rparr>],
               title = orElse (dataset c ''title'') [] \<rparr>)"

definition buildModelComparison :: "builtins \<Rightarrow> network \<Rightarrow> canvas \<Rightarrow> outcome" where
  "buildModelComparison B net c =
     afterLoad B net c [''csv'']
       (\<lambda>rows.
          let metrics = [''ACCURACY'', ''PRECISION'', ''RECALL'', ''F1_SCORE'', ''ROC_AUC''];
              metricLabels = [''Accuracy'', ''Precision'', ''Recall'', ''F1-Score'', ''ROC-AUC'']
          in \<lparr> chartType = ''bar'',
               labels = Some (map Str metricLabels),
               datasets = map (\<lambda>r. \<lparr> label = getProp r ''MODEL'',
                                       data = map (\<lambda>m. Value (getProp r m)) metrics \<rparr>) rows,
               title = orElse (dataset c ''title'') [] \<rparr>)"

definition buildRocCurves :: "builtins \<Rightarrow> network \<Rightarrow> canvas \<Rightarrow> outcome" where
  "buildRocCurves B net c =
     afterLoad B net c [''csv'']
       (\<lambda>rows.
          let modelNames = [''Logistic Regression (AUC=0.842)'', ''Random Forest (AUC=0.839)'',
                            ''XGBoost (AUC=0.841)''];
              tprCols = [''TPR_LR'', ''TPR_RF'', ''TPR_XGB'']
          in \<lparr> chartType = ''line'',
               labels = None,
               datasets =
                 map (\<lambda>(name, col).
                        \<lparr> label = Str name,
                          data = map (\<lambda>r. Point (getProp r ''FPR'') (getProp r col)) rows \<rparr>)
                     (zip modelNames tprCols)
                 @ [\<lparr> label = Str ''Random Classifier'',
                      data = [Point (Num 0) (Num 0), Point (Num 1) (Num 1)] \<rparr>],
               title = orElse (dataset c ''title'') [] \<rparr>)"

definition buildHorizontalBar :: "builtins \<Rightarrow> network \<Rightarrow> canvas \<Rightarrow> outcome" where
  "buildHorizontalBar B net c =
     afterLoad B net c [''csv'', ''labelCol'', ''yCol'']
       (\<lambda>rowsRaw.
          let rows = applySortLimit B rowsRaw c;
              labelCol = propKey (dataset c ''labelCol'');
              yCol = propKey (dataset c ''yCol'')
          in \<lparr> chartType = ''bar'',
               labels = Some (map (\<lambda>r. getProp r labelCol) rows),
               datasets = [\<lparr> label = Str ''Importance'', data = map (\<lambda>r. Value (getProp r yCol)) rows \<rparr>],
               title = orElse (dataset c ''title'') [] \<rparr>)"

text \<open>
  The page's start-up code picks the builder by the \<^verbatim>\<open>data-chart\<close> attribute. The
  keys each builder passes to \<^verbatim>\<open>ensureRequired\<close> are listed once more here, to
  state properties of all builders at once.
\<close>

datatype chartKind = WinsLosses | Bar | SimpleBar | ModelComparison | RocCurves | HorizontalBar

fun builder :: "chartKind \<Rightarrow> builtins \<Rightarrow> network \<Rightarrow> canvas \<Rightarrow> outcome" where
  "builder WinsLosses = buildWinsLosses"
| "builder Bar = buildBar"
| "builder SimpleBar = buildSimpleBar"
| "builder ModelComparison = buildModelComparison"
| "builder RocCurves = buildRocCurves"
| "builder HorizontalBar = buildHorizontalBar"

fun requiredKeys :: "chartKind \<Rightarrow> string list" where
  "requiredKeys WinsLosses = [''csv'', ''labelCol'', ''winsCol'', ''lossesCol'']"
| "requiredKeys Bar = [''csv'', ''labelCol'', ''yCol'']"
| "requiredKeys SimpleBar = [''csv'', ''labelCol'', ''yCol'']"
| "requiredKeys ModelComparison = [''csv'']"
| "requiredKeys RocCurves = [''csv'']"
| "requiredKeys HorizontalBar = [''csv'', ''labelCol'', ''yCol'']"

fun sortsAndLimits :: "chartKind \<Rightarrow> bool" where
  "sortsAndLimits ModelComparison = False"
| "sortsAndLimits RocCurves = False"
| "sortsAndLimits k = True"

section \<open>Arrays as mutable objects\<close>

text \<open>
  To speak about mutation, arrays live in a store: an address is an index into the list
  of all arrays. \<^verbatim>\<open>slice\<close> allocates a new array, \<^verbatim>\<open>sort\<close> overwrites the
  array it is called on. Rows are only read. \<open>applySortLimitStore\<close> is
  \<^verbatim>\<open>applySortLimit\<close> statement by statement on such a store; it returns the new
  store and the address of the array it returns.
\<close>

type_synonym store = "row list list"

definition allocArray :: "store \<Rightarrow> row list \<Rightarrow> store \<times> nat" where
  "allocArray s xs = (s @ [xs], length s)"

definition sortInPlace :: "builtins \<Rightarrow> (row \<Rightarrow> row \<Rightarrow> rat) \<Rightarrow> store \<Rightarrow> nat \<Rightarrow> store" where
  "sortInPlace B cmp s a = s[a := arraySort B cmp (s ! a)]"

definition applySortLimitStore :: "builtins \<Rightarrow> store \<Rightarrow> nat \<Rightarrow> canvas \<Rightarrow> store \<times> nat" where
  "applySortLimitStore B s rows c =
     (let (s1, out) = allocArray s (s ! rows);
          s2 = (case dataset c ''sortCol'' of
                  None \<Rightarrow> s1
                | Some sortCol \<Rightarrow>
                    if sortCol = [] then s1
                    else sortInPlace B (compareRows B sortCol (sortDirOf c)) s1 out)
      in case limitOf c of
           None \<Rightarrow> (s2, out)
         | Some limit \<Rightarrow>
             if limit \<noteq> 0 \<and> limit > 0 then allocArray s2 (take (nat limit) (s2 ! out))
             else (s2, out))"

section \<open>A reference instance of the built-in functions\<close>

text \<open>
  Concrete inputs are evaluated with these: decimal integers are parsed and printed as
  JavaScript does, and strings are compared code unit by code unit, which is the
  order \<^verbatim>\<open>localeCompare\<close> gives on the sample strings. The parser stands for
  a file whose table is given. The sort is the procedure of the V8 engine for arrays
  of fewer than 64 elements: the longest initial run is found (a strictly descending
  run is reversed), and the remaining elements are put into it one by one by binary
  insertion.
\<close>

fun decimal :: "nat \<Rightarrow> string" where
  "decimal n = (if n < 10 then [char_of (48 + n)] else decimal (n div 10) @ [char_of (48 + n mod 10)])"

declare decimal.simps [simp del]

definition refNumberToString :: "rat \<Rightarrow> string" where
  "refNumberToString q =
     (let i = \<lfloor>q\<rfloor> in if i < 0 then CHR ''-'' # decimal (nat (- i)) else decimal (nat i))"

definition refStringToNumber :: "string \<Rightarrow> rat option" where
  "refStringToNumber s =
     (let t = trim s;
          neg = (t \<noteq> [] \<and> hd t = CHR ''-'');
          u = (if t \<noteq> [] \<and> (hd t = CHR ''-'' \<or> hd t = CHR ''+'') then tl t else t)
      in if u \<noteq> [] \<and> list_all isDigit u
         then Some (if neg then - of_nat (digitsValue u) else of_nat (digitsValue u))
         else None)"

fun codeUnitCompare :: "string \<Rightarrow> string \<Rightarrow> int" where
  "codeUnitCompare [] [] = 0"
| "codeUnitCompare [] (y # ys) = - 1"
| "codeUnitCompare (x # xs) [] = 1"
| "codeUnitCompare (x # xs) (y # ys) =
     (if (of_char x :: nat) < of_char y then - 1
      else if (of_char y :: nat) < of_char x then 1
      else codeUnitCompare xs ys)"

text \<open>
  \<open>runMore\<close> counts the elements after the second that continue the run;
  \<open>binarySearch\<close> finds the place of a pivot in the sorted part \<open>ys\<close> between
  \<open>left\<close> and \<open>right\<close>, going right when the pivot does not compare smaller.
\<close>

fun runMore :: "('a \<Rightarrow> 'a \<Rightarrow> rat) \<Rightarrow> bool \<Rightarrow> 'a \<Rightarrow> 'a list \<Rightarrow> nat" where
  "runMore cmp isDescending previousElement [] = 0"
| "runMore cmp isDescending previousElement (currentElement # xs) =
     (if (if isDescending then cmp currentElement previousElement \<ge> 0
          else cmp currentElement previousElement < 0)
      then 0
      else Suc (runMore cmp isDescending currentElement xs))"

definition countAndMakeRun :: "('a \<Rightarrow> 'a \<Rightarrow> rat) \<Rightarrow> 'a list \<Rightarrow> 'a list \<times> 'a list" where
  "countAndMakeRun cmp xs =
     (case xs of
        elementHigh # elementLow # rest \<Rightarrow>
          (let isDescending = (cmp elementLow elementHigh < 0);
               runLength = 2 + runMore cmp isDescending elementLow rest
           in (if isDescending then rev (take runLength xs) else take runLength xs,
               drop runLength xs))
      | _ \<Rightarrow> (xs, []))"

function binarySearch :: "('a \<Rightarrow> 'a \<Rightarrow> rat) \<Rightarrow> 'a \<Rightarrow> 'a list \<Rightarrow> nat \<Rightarrow> nat \<Rightarrow> nat" where
  "binarySearch cmp pivot ys left right =
     (if left < right
      then (let mid = left + (right - left) div 2
            in if cmp pivot (ys ! mid) < 0 then binarySearch cmp pivot ys left mid
               else binarySearch cmp pivot ys (mid + 1) right)
      else left)"
  by pat_completeness auto
termination
  by (relation "measure (\<lambda>(cmp, pivot, ys, left, right). right - left)") auto

declare binarySearch.simps [simp del]

definition binaryInsert :: "('a \<Rightarrow> 'a \<Rightarrow> rat) \<Rightarrow> 'a list \<Rightarrow> 'a \<Rightarrow> 'a list" where
  "binaryInsert cmp ys pivot =
     (let left = binarySearch cmp pivot ys 0 (length ys)
      in take left ys @ [pivot] @ drop left ys)"

definition engineSort :: "('a \<Rightarrow> 'a \<Rightarrow> rat) \<Rightarrow> 'a list \<Rightarrow> 'a list" where
  "engineSort cmp xs =
     (if length xs < 2 then xs
      else (let (run, rest) = countAndMakeRun cmp xs in foldl (binaryInsert cmp) run rest))"

definition refBuiltins :: "row list \<Rightarrow> builtins" where
  "refBuiltins table =
     \<lparr> stringToNumber = refStringToNumber,
       numberToString = refNumberToString,
       localeCompare = codeUnitCompare,
       papaParse = (\<lambda>text. table),
       arraySort = engineSort \<rparr>"

section \<open>Sample inputs\<close>





definition teamRows :: "row list" where
  "teamRows =
     [[(''TEAM'', Str ''Sixers''), (''SEASON'', Str ''1972-73''), (''W'', Num 9), (''L'', Num 73)],
      [(''TEAM'', Str ''Bobcats''), (''SEASON'', Str ''2011-12''), (''W'', Num 7), (''L'', Num 59)],
      [(''TEAM'', Str ''Nets''), (''SEASON'', Null), (''W'', Null), (''L'', Num 70)],
      [(''TEAM'', Str ''Mavericks''), (''SEASON'', Str ''1992-93''), (''W'', Str ''11''), (''L'', Num 71)],
      [(''TEAM'', Str ''Nuggets''), (''SEASON'', Str ''1997-98''), (''W'', Null), (''L'', Num 71)],
      [(''TEAM'', Str ''Clippers''), (''SEASON'', Str ''1986-87''), (''W'', Num 9), (''L'', Num 70)]]"

definition teamCanvas :: "string \<Rightarrow> string \<Rightarrow> canvas" where
  "teamCanvas sortDir limitAttr =
     \<lparr> dataset = map_of [(''csv'', ''data/worst.csv''), (''labelCol'', ''TEAM''),
                          (''seasonCol'', ''SEASON''), (''winsCol'', ''W''), (''lossesCol'', ''L''),
                          (''yCol'', ''W''), (''sortCol'', ''W''), (''sortDir'', sortDir),
                          (''limit'', limitAttr)],
       has2dContext = True \<rparr>"

text \<open>
  A network that serves the team table's file and answers 404 for every other URL.
\<close>

definition sampleNet :: network where
  "sampleNet u =
     (if u = ''data/worst.csv'' then Resolved \<lparr> ok = True, status = 200, body = ''TEAM,SEASON,W,L'' \<rparr>
      else Resolved \<lparr> ok = False, status = 404, body = [] \<rparr>)"

text \<open>
  A bar chart's canvas whose label column is blank and whose value column is not set.
\<close>

definition brokenCanvas :: canvas where
  "brokenCanvas =
     \<lparr> dataset = map_of [(''csv'', ''data/worst.csv''), (''labelCol'', ''  ''), (''sortCol'', ''W'')],
       has2dContext = True \<rparr>"


section \<open>Properties of the comparator\<close>


lemma compareRows_pos_present:
  "0 < compareRows B col dir x y \<Longrightarrow> present (getProp x col) \<Longrightarrow> present (getProp y col)"
  by (auto simp: compareRows_def present_def Let_def split: if_splits)



lemma localeOrder_total:
  "localeOrder B \<Longrightarrow> \<not> localeCompare B s t \<le> 0 \<Longrightarrow> localeCompare B t s \<le> 0"
  unfolding localeOrder_def by (metis less_le_not_le not_le)




lemma valueLe_total:
  assumes H: "numericColumn B col rows \<or> (textColumn B col rows \<and> localeOrder B)"
    and x: "x \<in> set rows" "present (getProp x col)"
    and y: "y \<in> set rows" "present (getProp y col)"
    and n: "\<not> valueLe B (getProp x col) (getProp y col)"
  shows "valueLe B (getProp y col) (getProp x col)"
  using H
proof
  assume "numericColumn B col rows"
  with x y obtain p q where pq:
    "toNumberMaybe B (getProp x col) = Some p" "toNumberMaybe B (getProp y col) = Some q"
    unfolding numericColumn_def by blast
  with n show ?thesis by (simp add: valueLe_def)
next
  assume T: "textColumn B col rows \<and> localeOrder B"
  with x y have nn: "toNumberMaybe B (getProp x col) = None" "toNumberMaybe B (getProp y col) = None"
    unfolding textColumn_def by blast+
  with n T show ?thesis
    by (simp add: valueLe_def localeOrder_total)
qed


section \<open>Consistency of the comparator\<close>







section \<open>Ordering of the output of \<^verbatim>\<open>applySortLimit\<close>\<close>








section \<open>Facts about the reference instance\<close>













section \<open>Ordering: instances\<close>




section \<open>Stability\<close>








section \<open>The limit\<close>








section \<open>The row normalizer\<close>

text \<open>
  Claim C7. \<^verbatim>\<open>toNumberMaybe\<close> returns a number unchanged; for text that is not blank
  and that \<^verbatim>\<open>Number\<close> parses, it returns the parsed number; it returns null
  (\<open>None\<close>) for blank or non-numeric text, for undefined, null and booleans, and for
  the inherited functions and objects. It is a total function and its result type has
  no error value.
\<close>

theorem toNumberMaybe_cases:
  "toNumberMaybe B (Num x) = Some x \<and>
   (trim s \<noteq> [] \<and> stringToNumber B s = Some y \<longrightarrow> toNumberMaybe B (Str s) = Some y) \<and>
   (trim s = [] \<or> stringToNumber B s = None \<longrightarrow> toNumberMaybe B (Str s) = None) \<and>
   toNumberMaybe B Undefined = None \<and> toNumberMaybe B Null = None \<and>
   toNumberMaybe B (Bool b) = None \<and>
   toNumberMaybe B (Native f) = None \<and> toNumberMaybe B ObjectProto = None"
  by auto

text \<open>The theorem at the texts \<^verbatim>\<open>" 42 "\<close>, \<^verbatim>\<open>"  "\<close> and \<^verbatim>\<open>"1a"\<close>.\<close>

theorem toNumberMaybe_cases_witness:
  "trim '' 42 '' \<noteq> [] \<and> stringToNumber (refBuiltins []) '' 42 '' = Some 42 \<and>
   toNumberMaybe (refBuiltins []) (Str '' 42 '') = Some 42 \<and>
   trim ''  '' = [] \<and> toNumberMaybe (refBuiltins []) (Str ''  '') = None \<and>
   stringToNumber (refBuiltins []) ''1a'' = None \<and>
   toNumberMaybe (refBuiltins []) (Str ''1a'') = None"
proof -
  have a: "trim '' 42 '' \<noteq> []" by code_simp
  have b: "stringToNumber (refBuiltins []) '' 42 '' = Some 42" by code_simp
  have c: "trim ''  '' = []" by code_simp
  have d: "stringToNumber (refBuiltins []) ''1a'' = None" by code_simp
  from toNumberMaybe_cases[of "refBuiltins []" _ "'' 42 ''" 42]
       toNumberMaybe_cases[of "refBuiltins []" _ "''  ''"]
       toNumberMaybe_cases[of "refBuiltins []" _ "''1a''"] a b c d
  show ?thesis by simp
qed

section \<open>Labels\<close>




section \<open>Required attributes\<close>

lemma sublist_joinWith: "k \<in> set ks \<Longrightarrow> sublist k (joinWith sep ks)"
proof (induction sep ks rule: joinWith.induct)
  case (1 sep)
  then show ?case by simp
next
  case (2 sep x)
  then show ?case by simp
next
  case (3 sep x y ys)
  show ?case
  proof (cases "k = x")
    case True
    then show ?thesis by simp
  next
    case False
    with 3 have "sublist k (joinWith sep (y # ys))" by simp
    then obtain ps ss where "joinWith sep (y # ys) = ps @ k @ ss"
      by (auto simp: sublist_def)
    then have "joinWith sep (x # y # ys) = (x @ sep @ ps) @ k @ ss" by simp
    then show ?thesis unfolding sublist_def by blast
  qed
qed

lemma sublist_missingMessage:
  "k \<in> set missing \<Longrightarrow> sublist (''data-'' @ kebab k) (missingMessage missing)"
proof -
  assume "k \<in> set missing"
  then have "sublist (''data-'' @ kebab k) (joinWith '', '' (map (\<lambda>k. ''data-'' @ kebab k) missing))"
    by (intro sublist_joinWith) auto
  then obtain ps ss where
    "joinWith '', '' (map (\<lambda>k. ''data-'' @ kebab k) missing) = ps @ (''data-'' @ kebab k) @ ss"
    unfolding sublist_def by blast
  then have "missingMessage missing
      = (''Canvas is missing required data-* attributes: '' @ ps) @ (''data-'' @ kebab k) @ ss"
    unfolding missingMessage_def by simp
  then show ?thesis unfolding sublist_def by blast
qed

lemma builder_frame:
  "builder kind B net c = ([], Inl e)" if "ensureRequired c (requiredKeys kind) = Inl e"
  using that
  by (cases kind)
     (simp_all add: buildWinsLosses_def buildBar_def buildSimpleBar_def buildModelComparison_def
        buildRocCurves_def buildHorizontalBar_def afterLoad_def)

lemma ensureRequired_missing:
  "\<exists>k \<in> set keys. attrMissing c k \<Longrightarrow>
   ensureRequired c keys = Inl (Error (missingMessage (filter (attrMissing c) keys)))"
  by (auto simp: ensureRequired_def Let_def filter_empty_conv)

text \<open>
  Claim C5. When some required attribute of a builder is absent or blank, the builder
  fails with the error of \<^verbatim>\<open>ensureRequired\<close> before any URL is fetched, and the
  message names every missing required attribute (as \<^verbatim>\<open>data-\<close> followed by the
  key in kebab case), after the fixed text that marks a configuration error.
\<close>

theorem builder_missing_keys:
  assumes "\<exists>k \<in> set (requiredKeys kind). attrMissing c k"
  shows "builder kind B net c
           = ([], Inl (Error (missingMessage (filter (attrMissing c) (requiredKeys kind))))) \<and>
         prefix ''Canvas is missing required data-* attributes: ''
           (missingMessage (filter (attrMissing c) (requiredKeys kind))) \<and>
         (\<forall>k \<in> set (requiredKeys kind). attrMissing c k \<longrightarrow>
            sublist (''data-'' @ kebab k)
              (missingMessage (filter (attrMissing c) (requiredKeys kind))))"
proof (intro conjI ballI impI)
  show "builder kind B net c
           = ([], Inl (Error (missingMessage (filter (attrMissing c) (requiredKeys kind)))))"
    by (rule builder_frame) (rule ensureRequired_missing[OF assms])
  show "prefix ''Canvas is missing required data-* attributes: ''
           (missingMessage (filter (attrMissing c) (requiredKeys kind)))"
    unfolding missingMessage_def by (rule prefixI) simp
  fix k assume "k \<in> set (requiredKeys kind)" "attrMissing c k"
  then show "sublist (''data-'' @ kebab k)
              (missingMessage (filter (attrMissing c) (requiredKeys kind)))"
    by (intro sublist_missingMessage) simp
qed

text \<open>The theorem at a bar chart with a blank label column and no value column.\<close>

theorem builder_missing_keys_witness:
  "attrMissing brokenCanvas ''labelCol'' \<and> attrMissing brokenCanvas ''yCol'' \<and>
   \<not> attrMissing brokenCanvas ''csv'' \<and>
   builder Bar (refBuiltins teamRows) sampleNet brokenCanvas
     = ([], Inl (Error ''Canvas is missing required data-* attributes: data-label-col, data-y-col''))"
proof -
  have a: "attrMissing brokenCanvas ''labelCol''" by code_simp
  have b: "attrMissing brokenCanvas ''yCol''" by code_simp
  have c: "\<not> attrMissing brokenCanvas ''csv''" by code_simp
  have m: "missingMessage (filter (attrMissing brokenCanvas) (requiredKeys Bar))
           = ''Canvas is missing required data-* attributes: data-label-col, data-y-col''"
    by code_simp
  have e: "\<exists>k \<in> set (requiredKeys Bar). attrMissing brokenCanvas k" using a by simp
  from builder_missing_keys[OF e, of "refBuiltins teamRows" sampleNet] m a b c
  show ?thesis by simp
qed

lemma dropWhile_all: "list_all P xs \<Longrightarrow> dropWhile P xs = []"
  by (induction xs) simp_all

lemma trim_whitespace: "list_all isWhiteSpace v \<Longrightarrow> trim v = []"
  by (simp add: trim_def dropWhile_all)

lemma attrMissing_whitespace:
  assumes "dataset c k = Some v" "list_all isWhiteSpace v"
  shows "attrMissing c k' = attrMissing (c\<lparr>dataset := (dataset c)(k := None)\<rparr>) k'"
  using assms by (simp add: attrMissing_def trim_whitespace)

text \<open>
  Claim C10. An attribute whose value consists of white space only is treated as an
  attribute that is not set: \<^verbatim>\<open>ensureRequired\<close> gives the same result for both
  canvases, and when the attribute is required by a builder, the builder fails on both
  with the same missing-attribute error, which names the attribute.
\<close>

theorem whitespace_attribute_missing:
  assumes v: "dataset c k = Some v" and ws: "list_all isWhiteSpace v"
  shows "ensureRequired c keys = ensureRequired (c\<lparr>dataset := (dataset c)(k := None)\<rparr>) keys \<and>
         (k \<in> set (requiredKeys kind) \<longrightarrow>
            (\<exists>msg. builder kind B net c = ([], Inl (Error msg)) \<and>
                   builder kind B net (c\<lparr>dataset := (dataset c)(k := None)\<rparr>) = ([], Inl (Error msg)) \<and>
                   sublist (''data-'' @ kebab k) msg))"
proof
  have same: "attrMissing c = attrMissing (c\<lparr>dataset := (dataset c)(k := None)\<rparr>)"
    using attrMissing_whitespace[OF v ws] by (intro ext)
  show e: "ensureRequired c keys = ensureRequired (c\<lparr>dataset := (dataset c)(k := None)\<rparr>) keys"
    for keys
    unfolding ensureRequired_def same[symmetric] by simp
  show "k \<in> set (requiredKeys kind) \<longrightarrow>
            (\<exists>msg. builder kind B net c = ([], Inl (Error msg)) \<and>
                   builder kind B net (c\<lparr>dataset := (dataset c)(k := None)\<rparr>) = ([], Inl (Error msg)) \<and>
                   sublist (''data-'' @ kebab k) msg)"
  proof
    assume k: "k \<in> set (requiredKeys kind)"
    have mk: "attrMissing c k" using v ws by (simp add: attrMissing_def trim_whitespace)
    then have ex: "\<exists>k \<in> set (requiredKeys kind). attrMissing c k" using k by blast
    let ?msg = "missingMessage (filter (attrMissing c) (requiredKeys kind))"
    have r: "ensureRequired c (requiredKeys kind) = Inl (Error ?msg)"
      by (rule ensureRequired_missing[OF ex])
    have r': "ensureRequired (c\<lparr>dataset := (dataset c)(k := None)\<rparr>) (requiredKeys kind) = Inl (Error ?msg)"
      using r e by simp
    have "sublist (''data-'' @ kebab k) ?msg"
      by (rule sublist_missingMessage) (use k mk in simp)
    with builder_frame[OF r, of B net] builder_frame[OF r', of B net] show "\<exists>msg. builder kind B net c = ([], Inl (Error msg)) \<and>
                   builder kind B net (c\<lparr>dataset := (dataset c)(k := None)\<rparr>) = ([], Inl (Error msg)) \<and>
                   sublist (''data-'' @ kebab k) msg"
      by blast
  qed
qed

text \<open>
  The theorem at the bar chart whose label column is two spaces: it fails exactly as
  the same canvas without a label column.
\<close>

theorem whitespace_attribute_missing_witness:
  "dataset brokenCanvas ''labelCol'' = Some ''  '' \<and> list_all isWhiteSpace ''  '' \<and>
   ''labelCol'' \<in> set (requiredKeys Bar) \<and>
   builder Bar (refBuiltins teamRows) sampleNet brokenCanvas
     = builder Bar (refBuiltins teamRows) sampleNet
         (brokenCanvas\<lparr>dataset := (dataset brokenCanvas)(''labelCol'' := None)\<rparr>)"
proof -
  have a: "dataset brokenCanvas ''labelCol'' = Some ''  ''" by code_simp
  have b: "list_all isWhiteSpace ''  ''" by code_simp
  have c: "''labelCol'' \<in> set (requiredKeys Bar)" by simp
  have "\<exists>msg. builder Bar (refBuiltins teamRows) sampleNet brokenCanvas = ([], Inl (Error msg)) \<and>
          builder Bar (refBuiltins teamRows) sampleNet
            (brokenCanvas\<lparr>dataset := (dataset brokenCanvas)(''labelCol'' := None)\<rparr>)
            = ([], Inl (Error msg))"
    using whitespace_attribute_missing[OF a b, of "requiredKeys Bar" Bar "refBuiltins teamRows" sampleNet] c
    by blast
  then have "builder Bar (refBuiltins teamRows) sampleNet brokenCanvas
     = builder Bar (refBuiltins teamRows) sampleNet
         (brokenCanvas\<lparr>dataset := (dataset brokenCanvas)(''labelCol'' := None)\<rparr>)"
    by auto
  with a b c show ?thesis by blast
qed

section \<open>The loader\<close>

lemma isDigit_char_of: "d < 10 \<Longrightarrow> isDigit (char_of (48 + (d::nat)))"
  unfolding isDigit_def by simp

lemma decimal_digits: "decimal n \<noteq> [] \<and> list_all isDigit (decimal n)"
proof (induction n rule: decimal.induct)
  case (1 n)
  show ?case
  proof (cases "n < 10")
    case True
    then have "decimal n = [char_of (48 + n)]" by (subst decimal.simps) simp
    with True show ?thesis by (simp add: isDigit_char_of)
  next
    case False
    have d: "isDigit (char_of (48 + n mod 10))" by (rule isDigit_char_of) simp
    from False have e: "decimal n = decimal (n div 10) @ [char_of (48 + n mod 10)]"
      by (subst decimal.simps) simp
    from False 1 d show ?thesis unfolding e by simp
  qed
qed

lemma refNumberToString_nat: "numberToString (refBuiltins t) (of_nat n) = decimal n"
  by (simp add: refBuiltins_def refNumberToString_def)

lemma status_has_digit: "sublist (numberToString (refBuiltins t) (of_nat st)) msg \<Longrightarrow> list_ex isDigit msg"
proof -
  assume s: "sublist (numberToString (refBuiltins t) (of_nat st)) msg"
  from decimal_digits[of st] obtain ch where ch: "ch \<in> set (decimal st)" "isDigit ch"
    by (cases "decimal st") auto
  from s have "set (decimal st) \<subseteq> set msg"
    unfolding refNumberToString_nat by (rule set_mono_sublist)
  with ch show ?thesis by (auto simp: list_ex_iff)
qed

text \<open>
  Claim C6, as amended. \<^verbatim>\<open>loadCsv\<close> fails with its own error exactly when the URL
  is absent or empty or the fetch completes with a response that is not ok. For a
  response that is not ok, one URL was fetched and the message is
  \<^verbatim>\<open>CSV not found: URL (STATUS)\<close>, which carries the URL and the status code. For
  an absent or empty URL nothing is fetched and the message is the fixed text
  \<^verbatim>\<open>Missing data-csv attribute on canvas.\<close>
\<close>

theorem loadCsv_failure:
  "((\<exists>msg. snd (loadCsv B net url) = Inl (Error msg)) \<longleftrightarrow>
      (\<not> truthy url \<or> (\<exists>u res. url = Some u \<and> net u = Resolved res \<and> \<not> ok res))) \<and>
   (url = Some u \<and> u \<noteq> [] \<and> net u = Resolved res \<and> \<not> ok res \<longrightarrow>
      loadCsv B net url
        = ([u], Inl (Error (''CSV not found: '' @ u @ '' ('' @
                            numberToString B (of_nat (status res)) @ '')''))) \<and>
      carries B (''CSV not found: '' @ u @ '' ('' @ numberToString B (of_nat (status res)) @ '')'')
        u (status res)) \<and>
   (\<not> truthy url \<longrightarrow>
      loadCsv B net url = ([], Inl (Error ''Missing data-csv attribute on canvas.'')))"
proof (intro conjI impI)
  show "(\<exists>msg. snd (loadCsv B net url) = Inl (Error msg)) \<longleftrightarrow>
      (\<not> truthy url \<or> (\<exists>u res. url = Some u \<and> net u = Resolved res \<and> \<not> ok res))"
    by (auto simp: loadCsv_def truthy_def split: option.splits fetched.splits)
next
  assume a: "url = Some u \<and> u \<noteq> [] \<and> net u = Resolved res \<and> \<not> ok res"
  then show "loadCsv B net url
        = ([u], Inl (Error (''CSV not found: '' @ u @ '' ('' @
                            numberToString B (of_nat (status res)) @ '')'')))"
    by (simp add: loadCsv_def)
  have 1: "sublist u (''CSV not found: '' @ u @ '' ('' @ numberToString B (of_nat (status res)) @ '')'')"
    by (rule sublist_appendI)
  have "sublist (numberToString B (of_nat (status res)))
          ((''CSV not found: '' @ u @ '' ('') @ numberToString B (of_nat (status res)) @ '')'')"
    by (rule sublist_appendI)
  then have 2: "sublist (numberToString B (of_nat (status res)))
          (''CSV not found: '' @ u @ '' ('' @ numberToString B (of_nat (status res)) @ '')'')"
    by simp
  from 1 2 show "carries B (''CSV not found: '' @ u @ '' ('' @ numberToString B (of_nat (status res)) @ '')'')
        u (status res)"
    unfolding carries_def by blast
next
  assume "\<not> truthy url"
  then show "loadCsv B net url = ([], Inl (Error ''Missing data-csv attribute on canvas.''))"
    by (auto simp: loadCsv_def truthy_def split: option.splits)
qed

text \<open>The theorem at a URL that the sample network answers with status 404.\<close>

theorem loadCsv_failure_witness:
  "sampleNet ''data/none.csv'' = Resolved \<lparr> ok = False, status = 404, body = [] \<rparr> \<and>
   loadCsv (refBuiltins teamRows) sampleNet (Some ''data/none.csv'')
     = ([''data/none.csv''], Inl (Error ''CSV not found: data/none.csv (404)'')) \<and>
   \<not> truthy (Some []) \<and>
   loadCsv (refBuiltins teamRows) sampleNet (Some [])
     = ([], Inl (Error ''Missing data-csv attribute on canvas.''))"
proof -
  have n: "sampleNet ''data/none.csv'' = Resolved \<lparr> ok = False, status = 404, body = [] \<rparr>"
    by code_simp
  have s: "numberToString (refBuiltins teamRows) (of_nat 404) = ''404''" by code_simp
  have h: "Some ''data/none.csv'' = Some ''data/none.csv'' \<and> ''data/none.csv'' \<noteq> [] \<and>
           sampleNet ''data/none.csv'' = Resolved \<lparr> ok = False, status = 404, body = [] \<rparr> \<and>
           \<not> ok \<lparr> ok = False, status = 404, body = [] \<rparr>"
    using n by simp
  have t: "\<not> truthy (Some [])" by (simp add: truthy_def)
  have r1: "loadCsv (refBuiltins teamRows) sampleNet (Some ''data/none.csv'')
     = ([''data/none.csv''], Inl (Error ''CSV not found: data/none.csv (404)''))"
    using loadCsv_failure[of "refBuiltins teamRows" sampleNet "Some ''data/none.csv''" "''data/none.csv''"
        "\<lparr> ok = False, status = 404, body = [] \<rparr>"] h s by simp
  have r2: "loadCsv (refBuiltins teamRows) sampleNet (Some [])
     = ([], Inl (Error ''Missing data-csv attribute on canvas.''))"
    using loadCsv_failure[of "refBuiltins teamRows" sampleNet "Some []"] t by blast
  from n r1 t r2 show ?thesis by blast
qed

text \<open>
  Claim C6 as stated has every failure carry the attempted URL and the status code. With
  no \<^verbatim>\<open>data-csv\<close> attribute the loader fails before it fetches anything, so there
  is no status code, and its message contains no digit at all: it carries no status
  code, whatever URL and code one looks for.
\<close>

theorem loadCsv_absent_url_counterexample:
  "loadCsv (refBuiltins teamRows) sampleNet None
     = ([], Inl (Error ''Missing data-csv attribute on canvas.'')) \<and>
   \<not> (\<exists>u st. carries (refBuiltins teamRows) ''Missing data-csv attribute on canvas.'' u st)"
proof
  show "loadCsv (refBuiltins teamRows) sampleNet None
     = ([], Inl (Error ''Missing data-csv attribute on canvas.''))"
    by (simp add: loadCsv_def)
  have "\<not> list_ex isDigit ''Missing data-csv attribute on canvas.''" by code_simp
  then show "\<not> (\<exists>u st. carries (refBuiltins teamRows) ''Missing data-csv attribute on canvas.'' u st)"
    unfolding carries_def using status_has_digit by blast
qed

section \<open>Chart builders\<close>

lemma afterLoad_chart:
  assumes "afterLoad B net c keys mk = (reqs, Inr (Some ch))"
  shows "\<exists>rowsRaw. loadCsv B net (dataset c ''csv'') = (reqs, Inr rowsRaw) \<and> ch = mk rowsRaw"
  using assms
  by (auto simp: afterLoad_def split: sum.splits prod.splits if_splits)

text \<open>
  Claim C9. In the chart a builder produces, every dataset's data has as many entries
  as there are labels; for the four builders that sort and limit, that number is the
  number of rows \<^verbatim>\<open>applySortLimit\<close> returned for the loaded rows, and there is
  at least one dataset. (The ROC builder passes no labels.)
\<close>

theorem builder_series_lengths:
  assumes "builder kind B net c = (reqs, Inr (Some ch))"
  shows "(\<forall>ls. labels ch = Some ls \<longrightarrow> (\<forall>d \<in> set (datasets ch). length (data d) = length ls)) \<and>
         (sortsAndLimits kind \<longrightarrow>
            (\<exists>rowsRaw ls. loadCsv B net (dataset c ''csv'') = (reqs, Inr rowsRaw) \<and>
                          labels ch = Some ls \<and> datasets ch \<noteq> [] \<and>
                          length ls = length (applySortLimit B rowsRaw c)))"
  using assms
  by (cases kind)
     (auto simp: buildWinsLosses_def buildBar_def buildSimpleBar_def buildModelComparison_def
        buildRocCurves_def buildHorizontalBar_def Let_def dest!: afterLoad_chart)

text \<open>
  The theorem at the wins-losses chart of the team table, sorted by wins, limit 3:
  three labels, and three values in each of the two datasets.
\<close>

theorem builder_series_lengths_witness:
  "(case builder WinsLosses (refBuiltins teamRows) sampleNet (teamCanvas ''desc'' ''3'') of
      (reqs, Inr (Some ch)) \<Rightarrow>
         reqs = [''data/worst.csv''] \<and>
         labels ch = Some [Str ''Mavericks (1992-93)'', Str ''Sixers (1972-73)'', Str ''Clippers (1986-87)''] \<and>
         map (\<lambda>d. length (data d)) (datasets ch) = [3, 3]
    | _ \<Rightarrow> False)"
proof -
  let ?ch = "\<lparr> chartType = ''bar'',
      labels = Some [Str ''Mavericks (1992-93)'', Str ''Sixers (1972-73)'', Str ''Clippers (1986-87)''],
      datasets = [\<lparr> label = Str ''Wins'', data = [Value (Str ''11''), Value (Num 9), Value (Num 9)] \<rparr>,
                  \<lparr> label = Str ''Losses'', data = [Value (Num 71), Value (Num 73), Value (Num 70)] \<rparr>],
      title = [] \<rparr>"
  have e: "builder WinsLosses (refBuiltins teamRows) sampleNet (teamCanvas ''desc'' ''3'')
           = ([''data/worst.csv''], Inr (Some ?ch))"
    by code_simp
  from builder_series_lengths[OF e]
  have "\<forall>d \<in> set (datasets ?ch). length (data d) = 3" by simp
  then have "map (\<lambda>d. length (data d)) (datasets ?ch) = [3, 3]" by simp
  with e show ?thesis by simp
qed

section \<open>The input array is not mutated\<close>

text \<open>
  Claim C8. \<^verbatim>\<open>applySortLimit\<close> returns a new array and leaves its input as it was:
  the returned address is fresh, every array that existed before the call (the input
  among them) has the same contents in the same order after it, and the returned array
  holds what the function computes from the input's contents.
\<close>

theorem applySortLimitStore_frame:
  assumes "rows < length s"
  shows "(case applySortLimitStore B s rows c of
            (s', out) \<Rightarrow>
              s' ! rows = s ! rows \<and> take (length s) s' = s \<and>
              out \<noteq> rows \<and> length s \<le> out \<and> out < length s' \<and>
              s' ! out = applySortLimit B (s ! rows) c)"
  using assms
  by (auto simp: applySortLimitStore_def allocArray_def sortInPlace_def applySortLimit_def
        sortStep_def limitStep_def nth_append Let_def split: option.splits)

text \<open>The theorem at a store that holds the team table at address 0.\<close>

theorem applySortLimitStore_frame_witness:
  "(0::nat) < length [teamRows] \<and>
   fst (applySortLimitStore (refBuiltins []) [teamRows] 0 (teamCanvas ''desc'' ''3'')) ! 0 = teamRows \<and>
   snd (applySortLimitStore (refBuiltins []) [teamRows] 0 (teamCanvas ''desc'' ''3'')) \<noteq> 0"
proof -
  have h: "(0::nat) < length [teamRows]" by simp
  from applySortLimitStore_frame[OF h, of "refBuiltins []" "teamCanvas ''desc'' ''3''"]
  show ?thesis by (auto split: prod.splits)
qed

end
